theory Spec2Isabelle
  imports Complex_Main
begin

section \<open>Data model of \<open>pdf_craft/pdf/extractor.py\<close>\<close>

text \<open>
  Python floats are idealised as \<open>real\<close>: no rounding, and every coordinate, rank and
  size of the input is a finite number. The two infinite start values of the geometry
  scan are kept apart in the type \<open>ext\<close> below.

  \<open>Rectangle\<close>, \<open>OCRFragment\<close>, \<open>Layout\<close> and \<open>LayoutClass\<close> come from the library
  \<open>doc_page_extractor\<close>. A rectangle is its four corner points; its property \<open>size\<close>
  (width, height) is computed by that library and is kept here as an opaque observation
  of the rectangle, so that nothing below depends on how it is computed.
\<close>

type_synonym point = "real \<times> real"

record rectangle =
  lt :: point
  rt :: point
  lb :: point
  rb :: point
  rect_size :: "real \<times> real"

text \<open>Iterating a rectangle (\<open>for x, _ in text.rect\<close>) yields its corner points.\<close>

definition corners :: "rectangle \<Rightarrow> point list" where
  "corners r = [lt r, lb r, rb r, rt r]"

datatype layout_class =
  TITLE | PLAIN_TEXT | ABANDON | FIGURE | FIGURE_CAPTION
  | TABLE | TABLE_CAPTION | TABLE_FOOTNOTE | ISOLATE_FORMULA | FORMULA_CAPTION

record ocr_fragment =
  frag_text :: string
  frag_rank :: real
  frag_rect :: rectangle

record layout =
  cls :: layout_class
  layout_rect :: rectangle
  fragments :: "ocr_fragment list"

datatype text_kind = Kind_TITLE | Kind_PLAIN_TEXT | Kind_ABANDON

record ocr_text =
  content :: string
  rank :: real
  text_rect :: rectangle

record text_block =
  tb_rect :: rectangle
  kind :: text_kind
  tb_texts :: "ocr_text list"
  has_paragraph_indentation :: bool
  last_line_touch_end :: bool

text \<open>The image is an opaque handle, produced by the external \<open>clip\<close>.\<close>

type_synonym image = nat

record asset_block =
  ab_rect :: rectangle
  image :: image
  ab_texts :: "ocr_text list"

datatype block = TextBlock text_block | AssetBlock asset_block

datatype error = AssertionError | IndexError

text \<open>The constructor \<open>TextBlock(rect=..., kind=..., texts=...)\<close>: both flags default to False.\<close>

definition new_text_block :: "rectangle \<Rightarrow> text_kind \<Rightarrow> ocr_text list \<Rightarrow> text_block" where
  "new_text_block r k ts =
     \<lparr>tb_rect = r, kind = k, tb_texts = ts,
      has_paragraph_indentation = False, last_line_touch_end = False\<rparr>"

section \<open>The block assembler: \<open>_convert_to_blocks\<close>\<close>

definition convert_to_text :: "ocr_fragment list \<Rightarrow> ocr_text list" where
  "convert_to_text fs =
     map (\<lambda>f. \<lparr>content = frag_text f, rank = frag_rank f, text_rect = frag_rect f\<rparr>) fs"

type_synonym store = "(layout_class \<times> block) list"

text \<open>
  \<open>previous_block\<close> walks the store from its last index down to 0. The Python returns the
  block object found, which the caller then mutates in place; the model returns the index
  of that entry. \<open>previous_block_from c store n\<close> is the loop with \<open>n\<close> entries left, so
  it looks at index \<open>n - 1\<close>.
\<close>

fun previous_block_from :: "layout_class \<Rightarrow> store \<Rightarrow> nat \<Rightarrow> nat option" where
  "previous_block_from c store 0 = None"
| "previous_block_from c store (Suc i) =
     (if c = fst (store ! i) then Some i
      else if c \<noteq> ABANDON then None
      else previous_block_from c store i)"

definition previous_block :: "layout_class \<Rightarrow> store \<Rightarrow> nat option" where
  "previous_block c store = previous_block_from c store (length store)"

text \<open>
  The body shared by the three caption branches: look the target up, assert that it is
  an AssetBlock, extend its texts.
\<close>

definition attach_caption :: "layout_class \<Rightarrow> ocr_fragment list \<Rightarrow> store \<Rightarrow> error + store" where
  "attach_caption target fs store =
     (case previous_block target store of
        None \<Rightarrow> Inr store
      | Some i \<Rightarrow>
          (case snd (store ! i) of
             TextBlock tb \<Rightarrow> Inl AssertionError
           | AssetBlock a \<Rightarrow>
               Inr (store[i := (fst (store ! i),
                      AssetBlock (a\<lparr>ab_texts := ab_texts a @ convert_to_text fs\<rparr>))])))"

text \<open>One iteration of \<open>for layout in layouts\<close>; \<open>clip\<close> stands for \<open>clip(result, _)\<close>.\<close>

definition layout_step :: "(layout \<Rightarrow> image) \<Rightarrow> layout \<Rightarrow> store \<Rightarrow> error + store" where
  "layout_step clip l store =
     (let c = cls l in
      if c = TITLE then
        Inr (store @ [(c, TextBlock (new_text_block (layout_rect l) Kind_TITLE
                                      (convert_to_text (fragments l))))])
      else if c = PLAIN_TEXT then
        Inr (store @ [(c, TextBlock (new_text_block (layout_rect l) Kind_PLAIN_TEXT
                                      (convert_to_text (fragments l))))])
      else if c = ABANDON then
        Inr (store @ [(c, TextBlock (new_text_block (layout_rect l) Kind_ABANDON
                                      (convert_to_text (fragments l))))])
      else if c = FIGURE \<or> c = TABLE \<or> c = ISOLATE_FORMULA then
        Inr (store @ [(c, AssetBlock \<lparr>ab_rect = layout_rect l, image = clip l, ab_texts = []\<rparr>)])
      else if c = FIGURE_CAPTION then attach_caption FIGURE (fragments l) store
      else if c = TABLE_CAPTION \<or> c = TABLE_FOOTNOTE then attach_caption TABLE (fragments l) store
      else if c = FORMULA_CAPTION then attach_caption ISOLATE_FORMULA (fragments l) store
      else Inr store)"

fun convert_loop :: "(layout \<Rightarrow> image) \<Rightarrow> layout list \<Rightarrow> store \<Rightarrow> error + store" where
  "convert_loop clip [] store = Inr store"
| "convert_loop clip (l # ls) store =
     (case layout_step clip l store of
        Inl e \<Rightarrow> Inl e
      | Inr store' \<Rightarrow> convert_loop clip ls store')"

definition convert_to_blocks :: "(layout \<Rightarrow> image) \<Rightarrow> layout list \<Rightarrow> error + block list" where
  "convert_to_blocks clip layouts =
     (case convert_loop clip layouts [] of
        Inl e \<Rightarrow> Inl e
      | Inr store \<Rightarrow> Inr (map snd store))"

section \<open>The geometry analyzer: \<open>_texts_range\<close>\<close>

text \<open>
  The running bounds \<open>x1\<close> and \<open>x2\<close> start at \<open>float("inf")\<close> and \<open>float("-inf")\<close>.
\<close>

datatype ext = NegInf | Fin real | PosInf

fun ext_min :: "ext \<Rightarrow> real \<Rightarrow> ext" where
  "ext_min PosInf x = Fin x"
| "ext_min (Fin a) x = Fin (min a x)"
| "ext_min NegInf x = NegInf"

fun ext_max :: "ext \<Rightarrow> real \<Rightarrow> ext" where
  "ext_max NegInf x = Fin x"
| "ext_max (Fin a) x = Fin (max a x)"
| "ext_max PosInf x = PosInf"

text \<open>
  The bounds are read back as numbers only when at least one text was counted; they are
  finite then (lemma \<open>scan_counted\<close>), so \<open>fin\<close> needs no other equation.
\<close>

fun fin :: "ext \<Rightarrow> real" where
  "fin (Fin a) = a"

type_synonym scan = "real \<times> nat \<times> ext \<times> ext"

definition point_step :: "ext \<times> ext \<Rightarrow> point \<Rightarrow> ext \<times> ext" where
  "point_step b p = (ext_min (fst b) (fst p), ext_max (snd b) (fst p))"

definition text_step :: "scan \<Rightarrow> ocr_text \<Rightarrow> scan" where
  "text_step acc t =
     (case acc of (s, n, x1, x2) \<Rightarrow>
        (case foldl point_step (x1, x2) (corners (text_rect t)) of (x1', x2') \<Rightarrow>
           (s + snd (rect_size (text_rect t)), n + 1, x1', x2')))"

definition block_step :: "scan \<Rightarrow> block \<Rightarrow> scan" where
  "block_step acc b =
     (case b of
        AssetBlock a \<Rightarrow> acc
      | TextBlock tb \<Rightarrow>
          if kind tb = Kind_ABANDON then acc else foldl text_step acc (tb_texts tb))"

definition scan_blocks :: "block list \<Rightarrow> scan" where
  "scan_blocks blocks = foldl block_step (0, 0, PosInf, NegInf) blocks"

definition texts_range :: "block list \<Rightarrow> real \<times> real \<times> real" where
  "texts_range blocks =
     (case scan_blocks blocks of (s, n, x1, x2) \<Rightarrow>
        if n = 0 then (0, 0, 0) else (s / real n, fin x1, fin x2))"

section \<open>The paragraph shape classifier: the loop of \<open>extract\<close>\<close>

definition left_mid_x :: "rectangle \<Rightarrow> real" where
  "left_mid_x r = (fst (lt r) + fst (lb r)) / 2"

definition right_mid_x :: "rectangle \<Rightarrow> real" where
  "right_mid_x r = (fst (rt r) + fst (rb r)) / 2"

text \<open>Lines 61 to 64: the statistics a block is compared with.\<close>

definition baseline :: "real \<times> real \<times> real \<Rightarrow> text_block \<Rightarrow> real \<times> real \<times> real" where
  "baseline page_range tb =
     (if length (tb_texts tb) = 1 then page_range else texts_range [TextBlock tb])"

text \<open>
  Lines 66 to 71, for a block that has a first and a last text. The two sums are sums of
  reals; a Python sum beyond the float range is an infinity instead, so a theorem whose
  truth depends on the value of a sum assumes \<open>in_float_range\<close> of it.
\<close>

definition set_shape_flags :: "real \<times> real \<times> real \<Rightarrow> text_block \<Rightarrow> text_block" where
  "set_shape_flags stats tb =
     (case stats of (mean_line_height, x1, x2) \<Rightarrow>
        (let first_text = hd (tb_texts tb);
             last_text = last (tb_texts tb);
             first_delta_x = left_mid_x (text_rect first_text) - x1;
             last_delta_x = x2 - right_mid_x (text_rect last_text)
         in tb\<lparr>has_paragraph_indentation := first_delta_x > mean_line_height,
               last_line_touch_end := last_delta_x < mean_line_height\<rparr>))"

text \<open>
  One iteration of \<open>for block in blocks\<close>, given the page-wide statistics. Reading
  \<open>block.texts[0]\<close> of an empty list raises IndexError.
\<close>

definition classify_block :: "real \<times> real \<times> real \<Rightarrow> block \<Rightarrow> error + block" where
  "classify_block page_range b =
     (case b of
        AssetBlock a \<Rightarrow> Inr b
      | TextBlock tb \<Rightarrow>
          if kind tb = Kind_ABANDON then Inr b
          else if tb_texts tb = [] then Inl IndexError
          else Inr (TextBlock (set_shape_flags (baseline page_range tb) tb)))"

fun classify_blocks :: "real \<times> real \<times> real \<Rightarrow> block list \<Rightarrow> error + block list" where
  "classify_blocks page_range [] = Inr []"
| "classify_blocks page_range (b # bs) =
     (case classify_block page_range b of
        Inl e \<Rightarrow> Inl e
      | Inr b' \<Rightarrow>
          (case classify_blocks page_range bs of
             Inl e \<Rightarrow> Inl e
           | Inr bs' \<Rightarrow> Inr (b' # bs')))"

definition classify :: "block list \<Rightarrow> error + block list" where
  "classify blocks = classify_blocks (texts_range blocks) blocks"

text \<open>What \<open>extract\<close> yields for one page, from the page's layouts.\<close>

definition extract_page :: "(layout \<Rightarrow> image) \<Rightarrow> layout list \<Rightarrow> error + block list" where
  "extract_page clip layouts =
     (case convert_to_blocks clip layouts of
        Inl e \<Rightarrow> Inl e
      | Inr blocks \<Rightarrow> classify blocks)"

section \<open>Sample regions\<close>

definition box :: "real \<Rightarrow> real \<Rightarrow> real \<Rightarrow> real \<Rightarrow> rectangle" where
  "box x y w h =
     \<lparr>lt = (x, y), rt = (x + w, y), lb = (x, y + h), rb = (x + w, y + h), rect_size = (w, h)\<rparr>"

definition line :: "real \<Rightarrow> real \<Rightarrow> real \<Rightarrow> real \<Rightarrow> ocr_fragment" where
  "line x y w h = \<lparr>frag_text = ''t'', frag_rank = 1, frag_rect = box x y w h\<rparr>"

definition region :: "layout_class \<Rightarrow> ocr_fragment list \<Rightarrow> layout" where
  "region c fs = \<lparr>cls = c, layout_rect = box 0 0 100 100, fragments = fs\<rparr>"

section \<open>Notions used to state the properties\<close>

definition is_caption :: "layout_class \<Rightarrow> bool" where
  "is_caption c =
     (c = FIGURE_CAPTION \<or> c = TABLE_CAPTION \<or> c = TABLE_FOOTNOTE \<or> c = FORMULA_CAPTION)"

text \<open>The region type a caption class searches for (lines 115, 121 and 126).\<close>

fun caption_target :: "layout_class \<Rightarrow> layout_class" where
  "caption_target FIGURE_CAPTION = FIGURE"
| "caption_target TABLE_CAPTION = TABLE"
| "caption_target TABLE_FOOTNOTE = TABLE"
| "caption_target FORMULA_CAPTION = ISOLATE_FORMULA"
| "caption_target c = c"

text \<open>The block a non-caption region stands for when it is created.\<close>

definition fresh_block :: "(layout \<Rightarrow> image) \<Rightarrow> layout \<Rightarrow> block" where
  "fresh_block clip l =
     (case cls l of
        TITLE \<Rightarrow> TextBlock (new_text_block (layout_rect l) Kind_TITLE (convert_to_text (fragments l)))
      | PLAIN_TEXT \<Rightarrow>
          TextBlock (new_text_block (layout_rect l) Kind_PLAIN_TEXT (convert_to_text (fragments l)))
      | ABANDON \<Rightarrow>
          TextBlock (new_text_block (layout_rect l) Kind_ABANDON (convert_to_text (fragments l)))
      | _ \<Rightarrow> AssetBlock \<lparr>ab_rect = layout_rect l, image = clip l, ab_texts = []\<rparr>)"

text \<open>A block with the captions merged into it taken away again.\<close>

fun without_captions :: "block \<Rightarrow> block" where
  "without_captions (TextBlock tb) = TextBlock tb"
| "without_captions (AssetBlock a) = AssetBlock (a\<lparr>ab_texts := []\<rparr>)"

text \<open>The texts the geometry analyzer is specified to count.\<close>

fun block_counted :: "block \<Rightarrow> ocr_text list" where
  "block_counted (AssetBlock a) = []"
| "block_counted (TextBlock tb) = (if kind tb = Kind_ABANDON then [] else tb_texts tb)"

definition counted_texts :: "block list \<Rightarrow> ocr_text list" where
  "counted_texts blocks = concat (map block_counted blocks)"

definition corner_xs :: "ocr_text list \<Rightarrow> real list" where
  "corner_xs ts = concat (map (\<lambda>t. map fst (corners (text_rect t))) ts)"

definition line_heights :: "ocr_text list \<Rightarrow> real list" where
  "line_heights ts = map (\<lambda>t. snd (rect_size (text_rect t))) ts"

text \<open>
  The invariant of the store: an entry filed under FIGURE, TABLE or ISOLATE_FORMULA holds
  an AssetBlock.
\<close>

definition asset_class :: "layout_class \<Rightarrow> bool" where
  "asset_class c = (c = FIGURE \<or> c = TABLE \<or> c = ISOLATE_FORMULA)"

fun entry_ok :: "layout_class \<times> block \<Rightarrow> bool" where
  "entry_ok (c, AssetBlock a) = True"
| "entry_ok (c, TextBlock tb) = (\<not> asset_class c)"

text \<open>What classification may change: a block and the block yielded for it.\<close>

fun flags_clear :: "block \<Rightarrow> bool" where
  "flags_clear (AssetBlock a) = True"
| "flags_clear (TextBlock tb) = (\<not> has_paragraph_indentation tb \<and> \<not> last_line_touch_end tb)"

fun abandon_flags_clear :: "block \<Rightarrow> bool" where
  "abandon_flags_clear (AssetBlock a) = True"
| "abandon_flags_clear (TextBlock tb) =
     (kind tb = Kind_ABANDON \<longrightarrow> \<not> has_paragraph_indentation tb \<and> \<not> last_line_touch_end tb)"

fun frame :: "block \<Rightarrow> block \<Rightarrow> bool" where
  "frame (AssetBlock a) b' = (b' = AssetBlock a)"
| "frame (TextBlock tb) (AssetBlock a') = False"
| "frame (TextBlock tb) (TextBlock tb') =
     (tb_rect tb' = tb_rect tb \<and> kind tb' = kind tb \<and> tb_texts tb' = tb_texts tb \<and>
      (kind tb = Kind_ABANDON \<longrightarrow> tb' = tb))"

text \<open>
  The reals a Python float sum reaches without overflowing: a sum whose exact value is at
  most the largest finite double in magnitude is not rounded to an infinity.
\<close>

definition max_float :: real where
  "max_float = (2 - 1 / 2 ^ 52) * 2 ^ 1023"

definition in_float_range :: "real \<Rightarrow> bool" where
  "in_float_range x = (\<bar>x\<bar> \<le> max_float)"

text \<open>The blocks whose first and last text the classifier can read.\<close>

fun has_first_text :: "block \<Rightarrow> bool" where
  "has_first_text (AssetBlock a) = True"
| "has_first_text (TextBlock tb) = (kind tb = Kind_ABANDON \<or> tb_texts tb \<noteq> [])"

section \<open>Sample pages\<close>

text \<open>
  \<open>flat_page\<close>: two one-line paragraphs whose lines have height 0. \<open>sample_blocks\<close>: a
  one-line title, a figure with its caption, a footer and a two-line paragraph.
\<close>

definition flat_first :: text_block where
  "flat_first = new_text_block (box 0 0 100 100) Kind_PLAIN_TEXT (convert_to_text [line 0 0 5 0])"

definition flat_second :: text_block where
  "flat_second = new_text_block (box 0 0 100 100) Kind_PLAIN_TEXT (convert_to_text [line 10 0 5 0])"

definition flat_page :: "layout list" where
  "flat_page = [region PLAIN_TEXT [line 0 0 5 0], region PLAIN_TEXT [line 10 0 5 0]]"

definition flat_blocks :: "block list" where
  "flat_blocks = [TextBlock flat_first, TextBlock flat_second]"

definition title_block :: text_block where
  "title_block = new_text_block (box 0 0 100 100) Kind_TITLE (convert_to_text [line 20 0 30 4])"

definition para_block :: text_block where
  "para_block =
     new_text_block (box 0 0 100 100) Kind_PLAIN_TEXT
       (convert_to_text [line 7 10 83 2, line 5 12 83 2])"

definition footer_block :: text_block where
  "footer_block = new_text_block (box 0 0 100 100) Kind_ABANDON (convert_to_text [line 0 8 100 1])"

definition figure_block :: asset_block where
  "figure_block =
     \<lparr>ab_rect = box 0 0 100 100, image = 7, ab_texts = convert_to_text [line 0 5 9 1]\<rparr>"

definition sample_blocks :: "block list" where
  "sample_blocks =
     [TextBlock title_block, AssetBlock figure_block, TextBlock footer_block, TextBlock para_block]"

definition sample_page :: "layout list" where
  "sample_page =
     [region TITLE [line 20 0 30 4], region FIGURE [], region FIGURE_CAPTION [line 0 5 9 1],
      region ABANDON [line 0 8 100 1], region PLAIN_TEXT [line 7 10 83 2, line 5 12 83 2]]"

text \<open>
  Lines that are not axis-aligned: \<open>quad_text a b c d y h\<close> has its top-left corner at
  x = a, its bottom-left at x = b, its top-right at x = c and its bottom-right at x = d.
  \<open>slant_a\<close> and \<open>slant_b\<close> are two-line paragraphs of such lines; \<open>skew_a\<close> and \<open>skew_b\<close>
  are one-line paragraphs whose line has no vertical extent.
\<close>

definition quad_text :: "real \<Rightarrow> real \<Rightarrow> real \<Rightarrow> real \<Rightarrow> real \<Rightarrow> real \<Rightarrow> ocr_text" where
  "quad_text a b c d y h =
     \<lparr>content = ''t'', rank = 1,
      text_rect = \<lparr>lt = (a, y), rt = (c, y), lb = (b, y + h), rb = (d, y + h),
                   rect_size = (c - a, h)\<rparr>\<rparr>"

definition slant_a :: text_block where
  "slant_a =
     new_text_block (box 0 0 100 100) Kind_PLAIN_TEXT
       [quad_text 6 2 46 42 0 2, quad_text 8 4 48 44 2 2]"

definition slant_b :: text_block where
  "slant_b =
     new_text_block (box 0 0 100 100) Kind_PLAIN_TEXT
       [quad_text 12 4 40 32 0 4, quad_text 6 2 48 42 4 4]"

definition slanted_blocks :: "block list" where
  "slanted_blocks = [TextBlock slant_a, TextBlock slant_b]"

definition slanted_out :: "block list" where
  "slanted_out =
     [TextBlock slant_a,
      TextBlock (slant_b\<lparr>has_paragraph_indentation := True, last_line_touch_end := True\<rparr>)]"

definition skew_a :: text_block where
  "skew_a = new_text_block (box 0 0 100 100) Kind_PLAIN_TEXT [quad_text 0 4 20 24 0 0]"

definition skew_b :: text_block where
  "skew_b = new_text_block (box 0 0 100 100) Kind_PLAIN_TEXT [quad_text 4 0 20 24 1 0]"

definition skew_blocks :: "block list" where
  "skew_blocks = [TextBlock skew_a, TextBlock skew_b]"

definition skew_out :: "block list" where
  "skew_out =
     [TextBlock (skew_a\<lparr>has_paragraph_indentation := True\<rparr>),
      TextBlock (skew_b\<lparr>has_paragraph_indentation := True\<rparr>)]"

text \<open>An entry that breaks the invariant of the store, and a caption region that finds it.\<close>

definition broken_store :: store where
  "broken_store = [(FIGURE, TextBlock footer_block)]"

definition caption_region :: layout where
  "caption_region = region FIGURE_CAPTION [line 0 5 9 1]"

definition sample_out :: "block list" where
  "sample_out =
     [TextBlock (title_block\<lparr>has_paragraph_indentation := True\<rparr>), AssetBlock figure_block,
      TextBlock footer_block, TextBlock para_block]"

section \<open>The backward caption search\<close>

lemma previous_block_from_target:
  "c \<noteq> ABANDON \<Longrightarrow>
   previous_block_from c store n =
     (if n \<noteq> 0 \<and> fst (store ! (n - 1)) = c then Some (n - 1) else None)"
  by (cases n) auto

lemma previous_block_target:
  "c \<noteq> ABANDON \<Longrightarrow>
   previous_block c store =
     (if store \<noteq> [] \<and> fst (last store) = c then Some (length store - 1) else None)"
  by (cases store rule: rev_cases) (simp_all add: previous_block_def previous_block_from_target)

text \<open>
  C1. A FIGURE region, an ABANDON region, then a FIGURE_CAPTION region with one
  fragment: the backward search for FIGURE stops at the ABANDON entry with no match, and
  the figure's texts stay empty. The claim says that the ABANDON entry is skipped and
  the caption's fragment is appended to the figure.
\<close>

theorem abandon_blocks_caption_search:
  "convert_to_blocks (\<lambda>l. 7)
     [region FIGURE [], region ABANDON [], region FIGURE_CAPTION [line 0 0 10 2]]
   = Inr [AssetBlock \<lparr>ab_rect = box 0 0 100 100, image = 7, ab_texts = []\<rparr>,
          TextBlock (new_text_block (box 0 0 100 100) Kind_ABANDON [])]"
  by (simp add: convert_to_blocks_def layout_step_def attach_caption_def previous_block_def
      region_def convert_to_text_def)

section \<open>The assembler never fails and keeps one block per region\<close>

lemma layout_step_fresh:
  "\<not> is_caption (cls l) \<Longrightarrow> layout_step clip l store = Inr (store @ [(cls l, fresh_block clip l)])"
  by (cases "cls l") (simp_all add: layout_step_def fresh_block_def is_caption_def)

lemma layout_step_caption:
  "is_caption (cls l) \<Longrightarrow>
   layout_step clip l store = attach_caption (caption_target (cls l)) (fragments l) store"
  by (cases "cls l") (simp_all add: layout_step_def is_caption_def)

lemma caption_target_asset:
  "is_caption c \<Longrightarrow> asset_class (caption_target c) \<and> caption_target c \<noteq> ABANDON"
  by (cases c) (simp_all add: is_caption_def asset_class_def)

lemma fresh_block_ok: "\<not> is_caption (cls l) \<Longrightarrow> entry_ok (cls l, fresh_block clip l)"
  by (cases "cls l") (simp_all add: fresh_block_def is_caption_def asset_class_def)

lemma without_captions_fresh: "without_captions (fresh_block clip l) = fresh_block clip l"
  by (cases "cls l") (simp_all add: fresh_block_def)

lemma attach_caption_cases:
  assumes "asset_class t" "t \<noteq> ABANDON" "list_all entry_ok store"
  shows "attach_caption t fs store = Inr store \<or>
         (\<exists>pre a. store = pre @ [(t, AssetBlock a)] \<and>
            attach_caption t fs store =
              Inr (pre @ [(t, AssetBlock (a\<lparr>ab_texts := ab_texts a @ convert_to_text fs\<rparr>))]))"
proof (cases store rule: rev_cases)
  case Nil
  then show ?thesis using assms by (simp add: attach_caption_def previous_block_target)
next
  case (snoc pre e)
  obtain c b where e: "e = (c, b)" by (cases e)
  show ?thesis
  proof (cases "c = t")
    case False
    then show ?thesis using assms snoc e by (simp add: attach_caption_def previous_block_target)
  next
    case True
    with assms snoc e obtain a where "b = AssetBlock a"
      by (cases b) auto
    then show ?thesis using assms snoc e True
      by (simp add: attach_caption_def previous_block_target)
  qed
qed

lemma convert_loop_total:
  "list_all entry_ok store \<Longrightarrow>
   \<exists>store'. convert_loop clip ls store = Inr store' \<and> list_all entry_ok store' \<and>
     map (without_captions \<circ> snd) store' =
       map (without_captions \<circ> snd) store @ map (fresh_block clip) (filter (\<lambda>l. \<not> is_caption (cls l)) ls)"
proof (induction ls arbitrary: store)
  case Nil
  then show ?case by simp
next
  case (Cons l ls)
  show ?case
  proof (cases "is_caption (cls l)")
    case False
    have ok: "list_all entry_ok (store @ [(cls l, fresh_block clip l)])"
      using Cons.prems fresh_block_ok [OF False] by simp
    from Cons.IH [OF ok] show ?thesis
      using False by (auto simp: layout_step_fresh without_captions_fresh)
  next
    case True
    note tgt = caption_target_asset [OF True]
    from attach_caption_cases [of "caption_target (cls l)" store "fragments l"] tgt Cons.prems
    consider "attach_caption (caption_target (cls l)) (fragments l) store = Inr store"
      | pre a where "store = pre @ [(caption_target (cls l), AssetBlock a)]"
          "attach_caption (caption_target (cls l)) (fragments l) store =
              Inr (pre @ [(caption_target (cls l), AssetBlock (a\<lparr>ab_texts := ab_texts a @ convert_to_text (fragments l)\<rparr>))])"
      by blast
    then show ?thesis
    proof cases
      case 1
      from Cons.IH [OF Cons.prems] show ?thesis
        using True 1 by (auto simp: layout_step_caption)
    next
      case 2
      let ?s = "pre @ [(caption_target (cls l), AssetBlock (a\<lparr>ab_texts := ab_texts a @ convert_to_text (fragments l)\<rparr>))]"
      have ok: "list_all entry_ok ?s" using Cons.prems 2(1) by simp
      have same: "map (without_captions \<circ> snd) ?s = map (without_captions \<circ> snd) store"
        using 2(1) by simp
      from Cons.IH [OF ok] obtain store' where
        run: "convert_loop clip ls ?s = Inr store'" and ok': "list_all entry_ok store'" and
        eq: "map (without_captions \<circ> snd) store' =
             map (without_captions \<circ> snd) ?s @
             map (fresh_block clip) (filter (\<lambda>l. \<not> is_caption (cls l)) ls)"
        by blast
      have "convert_loop clip (l # ls) store = Inr store'"
        using True 2(2) run by (simp add: layout_step_caption)
      moreover have "map (without_captions \<circ> snd) store' =
             map (without_captions \<circ> snd) store @
             map (fresh_block clip) (filter (\<lambda>l. \<not> is_caption (cls l)) (l # ls))"
        using eq [unfolded same] True by simp
      ultimately show ?thesis using ok' by blast
    qed
  qed
qed


lemma convert_to_blocks_total:
  "\<exists>blocks. convert_to_blocks clip layouts = Inr blocks \<and>
     map without_captions blocks =
       map (fresh_block clip) (filter (\<lambda>l. \<not> is_caption (cls l)) layouts)"
proof -
  have "list_all entry_ok []" by simp
  from convert_loop_total [OF this, of clip layouts] obtain store' where
    run: "convert_loop clip layouts [] = Inr store'" and
    eq: "map (without_captions \<circ> snd) store' =
         map (fresh_block clip) (filter (\<lambda>l. \<not> is_caption (cls l)) layouts)"
    by auto
  have "convert_to_blocks clip layouts = Inr (map snd store')"
    using run by (simp add: convert_to_blocks_def)
  moreover have "map without_captions (map snd store') =
      map (fresh_block clip) (filter (\<lambda>l. \<not> is_caption (cls l)) layouts)"
    using eq by simp
  ultimately show ?thesis by blast
qed

text \<open>
  C6. For every region list the assembler returns a block list, and that list, with the
  merged captions taken away again, is the list of the blocks created for the non-caption
  regions, in the order of those regions: one block per non-caption region, none for a
  caption region.
\<close>

theorem one_block_per_region:
  "\<exists>blocks. convert_to_blocks clip layouts = Inr blocks \<and>
     map without_captions blocks =
       map (fresh_block clip) (filter (\<lambda>l. \<not> is_caption (cls l)) layouts)"
  by (rule convert_to_blocks_total)

lemma sample_converted: "convert_to_blocks (\<lambda>l. 7) sample_page = Inr sample_blocks"
  by (simp add: convert_to_blocks_def layout_step_def attach_caption_def previous_block_def
      sample_page_def sample_blocks_def title_block_def figure_block_def footer_block_def
      para_block_def region_def)

theorem one_block_per_region_witness:
  "convert_to_blocks (\<lambda>l. 7) sample_page = Inr sample_blocks \<and>
   map without_captions sample_blocks =
     map (fresh_block (\<lambda>l. 7)) (filter (\<lambda>l. \<not> is_caption (cls l)) sample_page)"
  using one_block_per_region [of "\<lambda>l. 7" sample_page] sample_converted by auto

text \<open>
  C7. A caption region whose backward search returns no block is dropped: the step raises
  nothing and returns the store as it was.
\<close>

theorem unmatched_caption_dropped:
  "is_caption (cls l) \<Longrightarrow> previous_block (caption_target (cls l)) store = None \<Longrightarrow>
   layout_step clip l store = Inr store"
  by (simp add: layout_step_caption attach_caption_def)

theorem unmatched_caption_dropped_witness:
  "is_caption (cls (region FIGURE_CAPTION [line 0 0 10 2])) \<and>
   previous_block (caption_target (cls (region FIGURE_CAPTION [line 0 0 10 2])))
     [(TABLE, AssetBlock \<lparr>ab_rect = box 0 0 100 100, image = 7, ab_texts = []\<rparr>)] = None \<and>
   layout_step (\<lambda>l. 7) (region FIGURE_CAPTION [line 0 0 10 2])
     [(TABLE, AssetBlock \<lparr>ab_rect = box 0 0 100 100, image = 7, ab_texts = []\<rparr>)]
   = Inr [(TABLE, AssetBlock \<lparr>ab_rect = box 0 0 100 100, image = 7, ab_texts = []\<rparr>)]"
proof -
  let ?l = "region FIGURE_CAPTION [line 0 0 10 2]"
  let ?s = "[(TABLE, AssetBlock \<lparr>ab_rect = box 0 0 100 100, image = 7, ab_texts = []\<rparr>)]"
  have c: "is_caption (cls ?l)" by (simp add: is_caption_def region_def)
  have n: "previous_block (caption_target (cls ?l)) ?s = None"
    by (simp add: region_def previous_block_def)
  from c n unmatched_caption_dropped [OF c n, of "\<lambda>l. 7"] show ?thesis by simp
qed

text \<open>
  C8. If the backward search of a caption region resolves to a TextBlock, the step fails
  with AssertionError and changes nothing; and run from the empty store, on any region
  list, the assembler returns a block list, so the assertion never fails there.
\<close>

theorem assertion_guards_merge:
  "(is_caption (cls l) \<and> previous_block (caption_target (cls l)) store = Some i \<and>
    snd (store ! i) = TextBlock tb \<longrightarrow> layout_step clip l store = Inl AssertionError) \<and>
   (\<exists>blocks. convert_to_blocks clip layouts = Inr blocks)"
proof
  show "is_caption (cls l) \<and> previous_block (caption_target (cls l)) store = Some i \<and>
    snd (store ! i) = TextBlock tb \<longrightarrow> layout_step clip l store = Inl AssertionError"
    by (simp add: layout_step_caption attach_caption_def)
  show "\<exists>blocks. convert_to_blocks clip layouts = Inr blocks"
    using convert_to_blocks_total [of clip layouts] by blast
qed

theorem assertion_guards_merge_witness:
  "is_caption (cls caption_region) \<and>
   previous_block (caption_target (cls caption_region)) broken_store = Some 0 \<and>
   snd (broken_store ! 0) = TextBlock footer_block \<and>
   layout_step (\<lambda>l. 7) caption_region broken_store = Inl AssertionError \<and>
   (\<exists>blocks. convert_to_blocks (\<lambda>l. 7) sample_page = Inr blocks)"
proof -
  have c: "is_caption (cls caption_region)"
    by (simp add: is_caption_def caption_region_def region_def)
  have p: "previous_block (caption_target (cls caption_region)) broken_store = Some 0"
    by (simp add: caption_region_def region_def broken_store_def previous_block_def)
  have t: "snd (broken_store ! 0) = TextBlock footer_block"
    by (simp add: broken_store_def)
  from assertion_guards_merge
    [where l = caption_region and store = broken_store and i = 0 and tb = footer_block
       and clip = "\<lambda>l. 7" and layouts = sample_page] c p t
  show ?thesis by blast
qed

section \<open>What classification leaves alone, and where it fails\<close>

lemma flags_clear_fresh: "flags_clear (fresh_block clip l)"
  by (cases "cls l") (simp_all add: fresh_block_def new_text_block_def)

lemma flags_clear_without_captions: "flags_clear (without_captions b) = flags_clear b"
  by (cases b) simp_all

lemma convert_to_blocks_flags_clear:
  assumes "convert_to_blocks clip layouts = Inr blocks"
  shows "list_all flags_clear blocks"
proof -
  from convert_to_blocks_total [of clip layouts] assms
  have "map without_captions blocks =
       map (fresh_block clip) (filter (\<lambda>l. \<not> is_caption (cls l)) layouts)" by auto
  then have "list_all flags_clear (map without_captions blocks)"
    by (simp add: list_all_iff flags_clear_fresh)
  then show ?thesis
    by (simp add: list_all_iff flags_clear_without_captions)
qed

lemma classify_block_frame: "classify_block pr b = Inr b' \<Longrightarrow> frame b b'"
  by (cases b) (auto simp: classify_block_def set_shape_flags_def Let_def split: if_splits prod.splits)

lemma classify_blocks_frame: "classify_blocks pr bs = Inr out \<Longrightarrow> list_all2 frame bs out"
proof (induction bs arbitrary: out)
  case Nil
  then show ?case by simp
next
  case (Cons b bs)
  then show ?case
    by (auto split: sum.splits dest: classify_block_frame)
qed

lemma frame_abandon: "flags_clear b \<Longrightarrow> frame b b' \<Longrightarrow> abandon_flags_clear b'"
  by (cases b; cases b') auto

text \<open>
  C9. Every block the assembler creates has both flags false; classification keeps every
  AssetBlock and every ABANDON TextBlock as it is, and keeps rect, kind and texts of every
  other TextBlock; so the ABANDON blocks yielded have both flags false.
\<close>

theorem classification_frame:
  assumes "convert_to_blocks clip layouts = Inr blocks" and "classify blocks = Inr out"
  shows "list_all flags_clear blocks \<and> list_all2 frame blocks out \<and> list_all abandon_flags_clear out"
proof -
  have a: "list_all flags_clear blocks" using assms(1) by (rule convert_to_blocks_flags_clear)
  have b: "list_all2 frame blocks out"
    using assms(2) unfolding classify_def by (rule classify_blocks_frame)
  have "list_all abandon_flags_clear out"
    unfolding list_all_length
  proof (intro allI impI)
    fix i assume i: "i < length out"
    with b have "frame (blocks ! i) (out ! i)" "i < length blocks"
      by (auto simp: list_all2_conv_all_nth)
    moreover from a this(2) have "flags_clear (blocks ! i)" by (simp add: list_all_length)
    ultimately show "abandon_flags_clear (out ! i)" by (blast intro: frame_abandon)
  qed
  with a b show ?thesis by blast
qed

lemma classify_block_error: "classify_block pr b = Inl e \<Longrightarrow> e = IndexError"
  by (cases b) (auto simp: classify_block_def split: if_splits)

lemma classify_blocks_error: "classify_blocks pr bs = Inl e \<Longrightarrow> e = IndexError"
  by (induction bs) (auto split: sum.splits dest: classify_block_error)

lemma classify_blocks_fails:
  "b \<in> set bs \<Longrightarrow> classify_block pr b = Inl IndexError \<Longrightarrow> classify_blocks pr bs = Inl IndexError"
proof (induction bs)
  case Nil
  then show ?case by simp
next
  case (Cons c bs)
  then show ?case
    by (auto split: sum.splits dest: classify_block_error classify_blocks_error)
qed

lemma classify_block_total: "(\<exists>b'. classify_block pr b = Inr b') \<longleftrightarrow> has_first_text b"
  by (cases b) (simp_all add: classify_block_def)

lemma classify_blocks_total:
  "(\<exists>out. classify_blocks pr bs = Inr out) \<longleftrightarrow> list_all has_first_text bs"
proof (induction bs)
  case Nil
  then show ?case by simp
next
  case (Cons b bs)
  show ?case
  proof (cases "classify_block pr b")
    case (Inl e)
    with classify_block_total [of pr b] show ?thesis by auto
  next
    case (Inr b')
    with classify_block_total [of pr b] have "has_first_text b" by auto
    with Inr Cons.IH show ?thesis by (auto split: sum.splits)
  qed
qed

lemma empty_region_extract:
  assumes "l \<in> set layouts" and "cls l = TITLE \<or> cls l = PLAIN_TEXT" and "fragments l = []"
  shows "extract_page clip layouts = Inl IndexError"
proof -
  from convert_to_blocks_total [of clip layouts] obtain blocks where
    run: "convert_to_blocks clip layouts = Inr blocks" and
    eq: "map without_captions blocks =
       map (fresh_block clip) (filter (\<lambda>l. \<not> is_caption (cls l)) layouts)" by blast
  have "\<not> is_caption (cls l)" using assms(2) by (auto simp: is_caption_def)
  with assms(1) have "fresh_block clip l \<in> set (map without_captions blocks)"
    unfolding eq by simp
  then obtain b where b: "b \<in> set blocks" "without_captions b = fresh_block clip l" by auto
  obtain tb where tb: "fresh_block clip l = TextBlock tb" "kind tb \<noteq> Kind_ABANDON" "tb_texts tb = []"
    using assms(2,3) by (auto simp: fresh_block_def new_text_block_def convert_to_text_def)
  with b(2) have "b = TextBlock tb" by (cases b) auto
  then have "classify_block (texts_range blocks) b = Inl IndexError"
    using tb by (simp add: classify_block_def)
  with b(1) have "classify blocks = Inl IndexError"
    unfolding classify_def by (rule classify_blocks_fails)
  then show ?thesis using run by (simp add: extract_page_def)
qed

text \<open>
  C10. Classification returns the page exactly when every TextBlock that is not ABANDON
  has a text; and a page with a TITLE or PLAIN_TEXT region that has no fragments makes
  \<open>extract\<close> raise IndexError, where it reads the first text of the block, instead of
  yielding the page.
\<close>

theorem empty_text_region_fails:
  "((\<exists>out. classify blocks = Inr out) \<longleftrightarrow> list_all has_first_text blocks) \<and>
   (l \<in> set layouts \<and> (cls l = TITLE \<or> cls l = PLAIN_TEXT) \<and> fragments l = [] \<longrightarrow>
      extract_page clip layouts = Inl IndexError)"
  using classify_blocks_total [of "texts_range blocks" blocks] empty_region_extract [of l layouts clip]
  by (simp add: classify_def)

section \<open>The geometry analyzer computes mean and extent\<close>

lemma foldl_point_step:
  "foldl point_step (x1, x2) ps = (foldl ext_min x1 (map fst ps), foldl ext_max x2 (map fst ps))"
  by (induction ps arbitrary: x1 x2) (simp_all add: point_step_def)

lemma text_step_eq:
  "text_step (s, n, x1, x2) t =
     (s + snd (rect_size (text_rect t)), Suc n,
      foldl ext_min x1 (map fst (corners (text_rect t))),
      foldl ext_max x2 (map fst (corners (text_rect t))))"
  by (simp add: text_step_def foldl_point_step)

lemma foldl_text_step:
  "foldl text_step (s, n, x1, x2) ts =
     (s + sum_list (line_heights ts), n + length ts,
      foldl ext_min x1 (corner_xs ts), foldl ext_max x2 (corner_xs ts))"
proof (induction ts arbitrary: s n x1 x2)
  case Nil
  then show ?case by (simp add: line_heights_def corner_xs_def)
next
  case (Cons t ts)
  show ?case
    by (simp add: text_step_eq Cons.IH) (simp add: line_heights_def corner_xs_def)
qed

lemma block_step_eq: "block_step acc b = foldl text_step acc (block_counted b)"
  by (cases b) (simp_all add: block_step_def)

lemma foldl_block_step: "foldl block_step acc bs = foldl text_step acc (counted_texts bs)"
  by (induction bs arbitrary: acc) (simp_all add: counted_texts_def block_step_eq)

lemma scan_counted:
  "scan_blocks bs =
     (sum_list (line_heights (counted_texts bs)), length (counted_texts bs),
      foldl ext_min PosInf (corner_xs (counted_texts bs)),
      foldl ext_max NegInf (corner_xs (counted_texts bs)))"
  by (simp add: scan_blocks_def foldl_block_step foldl_text_step)

lemma foldl_ext_min_Fin: "foldl ext_min (Fin a) xs = Fin (Min (insert a (set xs)))"
proof (induction xs arbitrary: a)
  case Nil
  then show ?case by simp
next
  case (Cons x xs)
  have "Min (insert (min a x) (set xs)) = Min (insert a (insert x (set xs)))"
    by (cases "xs = []") (simp_all add: min.assoc)
  then show ?case by (simp add: Cons.IH)
qed

lemma foldl_ext_max_Fin: "foldl ext_max (Fin a) xs = Fin (Max (insert a (set xs)))"
proof (induction xs arbitrary: a)
  case Nil
  then show ?case by simp
next
  case (Cons x xs)
  have "Max (insert (max a x) (set xs)) = Max (insert a (insert x (set xs)))"
    by (cases "xs = []") (simp_all add: max.assoc)
  then show ?case by (simp add: Cons.IH)
qed

lemma foldl_ext_min_PosInf: "xs \<noteq> [] \<Longrightarrow> foldl ext_min PosInf xs = Fin (Min (set xs))"
  by (cases xs) (simp_all add: foldl_ext_min_Fin)

lemma foldl_ext_max_NegInf: "xs \<noteq> [] \<Longrightarrow> foldl ext_max NegInf xs = Fin (Max (set xs))"
  by (cases xs) (simp_all add: foldl_ext_max_Fin)

lemma corner_xs_empty: "corner_xs ts = [] \<longleftrightarrow> ts = []"
  by (cases ts) (simp_all add: corner_xs_def corners_def)

lemma texts_range_counted:
  "texts_range bs =
     (if counted_texts bs = [] then (0, 0, 0)
      else (sum_list (line_heights (counted_texts bs)) / real (length (counted_texts bs)),
            Min (set (corner_xs (counted_texts bs))),
            Max (set (corner_xs (counted_texts bs)))))"
  by (simp add: texts_range_def scan_counted foldl_ext_min_PosInf foldl_ext_max_NegInf corner_xs_empty)

lemma texts_range_bounds:
  assumes "t \<in> set (counted_texts bs)" and "texts_range bs = (m, x1, x2)"
    and "p \<in> set (corners (text_rect t))"
  shows "x1 \<le> fst p \<and> fst p \<le> x2"
proof -
  have ne: "counted_texts bs \<noteq> []" using assms(1) by auto
  have mem: "fst p \<in> set (corner_xs (counted_texts bs))"
    using assms(1,3) by (auto simp: corner_xs_def)
  from assms(2) ne have "x1 = Min (set (corner_xs (counted_texts bs)))"
    "x2 = Max (set (corner_xs (counted_texts bs)))"
    by (simp_all add: texts_range_counted)
  with mem show ?thesis by simp
qed

lemma classify_blocks_nth:
  "classify_blocks pr bs = Inr out \<Longrightarrow> i < length bs \<Longrightarrow> classify_block pr (bs ! i) = Inr (out ! i)"
proof (induction bs arbitrary: out i)
  case Nil
  then show ?case by simp
next
  case (Cons b bs)
  then show ?case
    by (cases i) (auto split: sum.splits)
qed

lemma classify_nth:
  assumes "classify blocks = Inr out" "i < length blocks" "blocks ! i = TextBlock tb"
    "kind tb \<noteq> Kind_ABANDON"
  shows "tb_texts tb \<noteq> [] \<and>
         out ! i = TextBlock (set_shape_flags (baseline (texts_range blocks) tb) tb)"
proof -
  from assms(1,2) have "classify_block (texts_range blocks) (blocks ! i) = Inr (out ! i)"
    unfolding classify_def by (rule classify_blocks_nth)
  then show ?thesis using assms(3,4)
    by (auto simp: classify_block_def split: if_splits)
qed

lemma baseline_bounds:
  assumes "i < length blocks" "blocks ! i = TextBlock tb" "kind tb \<noteq> Kind_ABANDON"
    "t \<in> set (tb_texts tb)" "baseline (texts_range blocks) tb = (m, x1, x2)"
    "p \<in> set (corners (text_rect t))"
  shows "x1 \<le> fst p \<and> fst p \<le> x2"
proof (cases "length (tb_texts tb) = 1")
  case True
  have "TextBlock tb \<in> set blocks" using assms(1,2) by (metis nth_mem)
  then have "t \<in> set (counted_texts blocks)"
    using assms(3,4) by (force simp: counted_texts_def)
  moreover have "texts_range blocks = (m, x1, x2)" using assms(5) True by (simp add: baseline_def)
  ultimately show ?thesis using assms(6) by (rule texts_range_bounds)
next
  case False
  have "t \<in> set (counted_texts [TextBlock tb])"
    using assms(3,4) by (simp add: counted_texts_def)
  moreover have "texts_range [TextBlock tb] = (m, x1, x2)" using assms(5) False by (simp add: baseline_def)
  ultimately show ?thesis using assms(6) by (rule texts_range_bounds)
qed

section \<open>The shape flags\<close>

lemmas sample_defs =
  flat_first_def flat_second_def flat_page_def title_block_def para_block_def footer_block_def figure_block_def sample_blocks_def flat_blocks_def
  new_text_block_def convert_to_text_def line_def box_def region_def

lemmas range_defs =
  texts_range_def scan_blocks_def block_step_def text_step_def point_step_def corners_def

lemmas classify_defs =
  classify_def classify_block_def baseline_def set_shape_flags_def left_mid_x_def right_mid_x_def

lemma sample_page_range: "texts_range sample_blocks = (8 / 3, 5, 90)"
  by (simp add: sample_defs range_defs)

lemma para_range: "texts_range [TextBlock para_block] = (2, 5, 90)"
  by (simp add: sample_defs range_defs)

lemma flat_range: "texts_range flat_blocks = (0, 0, 15)"
  by (simp add: sample_defs range_defs)

lemma sample_classified: "classify sample_blocks = Inr sample_out"
  unfolding classify_def sample_page_range
  by (simp add: sample_blocks_def sample_out_def classify_block_def baseline_def para_range)
     (simp add: sample_defs set_shape_flags_def left_mid_x_def right_mid_x_def)

lemma flat_classified:
  "classify flat_blocks =
     Inr [TextBlock flat_first, TextBlock (flat_second\<lparr>has_paragraph_indentation := True\<rparr>)]"
  unfolding classify_def flat_range
  by (simp add: sample_defs classify_block_def baseline_def set_shape_flags_def left_mid_x_def right_mid_x_def)

lemma flat_converted: "convert_to_blocks (\<lambda>l. 7) flat_page = Inr flat_blocks"
  by (simp add: convert_to_blocks_def layout_step_def flat_page_def flat_blocks_def
      flat_first_def flat_second_def region_def)

text \<open>
  C2, as stated, fails: on \<open>flat_page\<close> the mean line height is 0, and the second block,
  whose line starts at x = 10 while the page's left boundary is 0, gets
  \<open>has_paragraph_indentation\<close> set to True.
\<close>

theorem zero_mean_indentation_counterexample:
  "convert_to_blocks (\<lambda>l. 7) flat_page = Inr flat_blocks \<and>
   texts_range flat_blocks = (0, 0, 15) \<and>
   extract_page (\<lambda>l. 7) flat_page =
     Inr [TextBlock flat_first, TextBlock (flat_second\<lparr>has_paragraph_indentation := True\<rparr>)]"
  by (simp add: extract_page_def flat_converted flat_range flat_classified)

lemma skew_range: "texts_range skew_blocks = (0, 0, 24)"
  by (simp add: skew_blocks_def skew_a_def skew_b_def quad_text_def new_text_block_def range_defs)

lemma skew_classified: "classify skew_blocks = Inr skew_out"
  unfolding classify_def skew_range
  by (simp add: skew_blocks_def skew_out_def skew_a_def skew_b_def quad_text_def new_text_block_def
      classify_block_def baseline_def set_shape_flags_def left_mid_x_def right_mid_x_def)

lemma small_in_float_range: "\<bar>x\<bar> \<le> 1000 \<Longrightarrow> in_float_range x"
proof -
  assume x: "\<bar>x\<bar> \<le> 1000"
  have "(1000::real) \<le> 2 ^ 10" by simp
  also have "\<dots> \<le> 2 ^ 1023" by (rule power_increasing) simp_all
  also have "\<dots> \<le> max_float" by (simp add: max_float_def)
  finally show ?thesis using x by (simp add: in_float_range_def)
qed

text \<open>
  C2, amended. For a block that is classified with a mean line height of 0, and whose
  two corner sums stay within the float range, \<open>last_line_touch_end\<close> is set false (the
  right-edge delta is not less than 0), and \<open>has_paragraph_indentation\<close> is set true
  exactly when the midpoint of the first line's left edge, the mean of the x of its
  top-left and bottom-left corners, lies strictly right of the baseline \<open>x1\<close>.
\<close>

theorem zero_mean_flags:
  assumes "classify blocks = Inr out" and "i < length blocks" and "blocks ! i = TextBlock tb"
    and "kind tb \<noteq> Kind_ABANDON" and "baseline (texts_range blocks) tb = (0, x1, x2)"
    and "first_rect = text_rect (hd (tb_texts tb))" and "last_rect = text_rect (last (tb_texts tb))"
    and "in_float_range (fst (lt first_rect) + fst (lb first_rect))"
    and "in_float_range (fst (rt last_rect) + fst (rb last_rect))"
  shows "\<exists>tb'. out ! i = TextBlock tb' \<and>
           0 \<le> x2 - (fst (rt last_rect) + fst (rb last_rect)) / 2 \<and>
           \<not> last_line_touch_end tb' \<and>
           (has_paragraph_indentation tb' \<longleftrightarrow>
              x1 < (fst (lt first_rect) + fst (lb first_rect)) / 2)"
proof -
  from classify_nth [OF assms(1-4)] have ne: "tb_texts tb \<noteq> []"
    and out: "out ! i = TextBlock (set_shape_flags (baseline (texts_range blocks) tb) tb)"
    by simp_all
  have mem: "last (tb_texts tb) \<in> set (tb_texts tb)" using ne by simp
  have "fst (rt last_rect) \<le> x2"
    using baseline_bounds [OF assms(2-4) mem assms(5), of "rt last_rect"]
    by (simp add: corners_def assms(7))
  moreover have "fst (rb last_rect) \<le> x2"
    using baseline_bounds [OF assms(2-4) mem assms(5), of "rb last_rect"]
    by (simp add: corners_def assms(7))
  ultimately have "(fst (rt last_rect) + fst (rb last_rect)) / 2 \<le> x2" by simp
  then show ?thesis
    unfolding out assms(5)
    by (simp add: set_shape_flags_def left_mid_x_def right_mid_x_def Let_def assms(6,7))
qed

theorem zero_mean_flags_witness:
  "classify skew_blocks = Inr skew_out \<and>
   0 < length skew_blocks \<and> skew_blocks ! 0 = TextBlock skew_a \<and>
   kind skew_a \<noteq> Kind_ABANDON \<and>
   baseline (texts_range skew_blocks) skew_a = (0, 0, 24) \<and>
   in_float_range (fst (lt (text_rect (hd (tb_texts skew_a)))) +
                   fst (lb (text_rect (hd (tb_texts skew_a))))) \<and>
   in_float_range (fst (rt (text_rect (last (tb_texts skew_a)))) +
                   fst (rb (text_rect (last (tb_texts skew_a))))) \<and>
   fst (lt (text_rect (hd (tb_texts skew_a)))) = 0 \<and>
   fst (lb (text_rect (hd (tb_texts skew_a)))) = 4 \<and>
   (\<exists>tb'. skew_out ! 0 = TextBlock tb' \<and> \<not> last_line_touch_end tb' \<and>
      has_paragraph_indentation tb') \<and>
   1 < length skew_blocks \<and> skew_blocks ! 1 = TextBlock skew_b \<and>
   kind skew_b \<noteq> Kind_ABANDON \<and>
   baseline (texts_range skew_blocks) skew_b = (0, 0, 24) \<and>
   in_float_range (fst (lt (text_rect (hd (tb_texts skew_b)))) +
                   fst (lb (text_rect (hd (tb_texts skew_b))))) \<and>
   in_float_range (fst (rt (text_rect (last (tb_texts skew_b)))) +
                   fst (rb (text_rect (last (tb_texts skew_b))))) \<and>
   fst (lt (text_rect (hd (tb_texts skew_b)))) = 4 \<and>
   fst (lb (text_rect (hd (tb_texts skew_b)))) = 0 \<and>
   (\<exists>tb'. skew_out ! 1 = TextBlock tb' \<and> \<not> last_line_touch_end tb' \<and>
      has_paragraph_indentation tb')"
proof -
  have a2: "0 < length skew_blocks" and a3: "skew_blocks ! 0 = TextBlock skew_a"
    and b2: "1 < length skew_blocks" and b3: "skew_blocks ! 1 = TextBlock skew_b"
    by (simp_all add: skew_blocks_def)
  have a4: "kind skew_a \<noteq> Kind_ABANDON" and b4: "kind skew_b \<noteq> Kind_ABANDON"
    by (simp_all add: skew_a_def skew_b_def new_text_block_def)
  have a5: "baseline (texts_range skew_blocks) skew_a = (0, 0, 24)"
    and b5: "baseline (texts_range skew_blocks) skew_b = (0, 0, 24)"
    by (simp_all add: baseline_def skew_range skew_a_def skew_b_def new_text_block_def)
  have al: "fst (lt (text_rect (hd (tb_texts skew_a)))) = 0"
    and ab: "fst (lb (text_rect (hd (tb_texts skew_a)))) = 4"
    and ar: "fst (rt (text_rect (last (tb_texts skew_a)))) = 20"
    and ad: "fst (rb (text_rect (last (tb_texts skew_a)))) = 24"
    by (simp_all add: skew_a_def new_text_block_def quad_text_def)
  have bl: "fst (lt (text_rect (hd (tb_texts skew_b)))) = 4"
    and bb: "fst (lb (text_rect (hd (tb_texts skew_b)))) = 0"
    and br: "fst (rt (text_rect (last (tb_texts skew_b)))) = 20"
    and bd: "fst (rb (text_rect (last (tb_texts skew_b)))) = 24"
    by (simp_all add: skew_b_def new_text_block_def quad_text_def)
  have a8: "in_float_range (fst (lt (text_rect (hd (tb_texts skew_a)))) +
                   fst (lb (text_rect (hd (tb_texts skew_a)))))"
    and a9: "in_float_range (fst (rt (text_rect (last (tb_texts skew_a)))) +
                   fst (rb (text_rect (last (tb_texts skew_a)))))"
    unfolding al ab ar ad by (rule small_in_float_range, simp)+
  have b8: "in_float_range (fst (lt (text_rect (hd (tb_texts skew_b)))) +
                   fst (lb (text_rect (hd (tb_texts skew_b)))))"
    and b9: "in_float_range (fst (rt (text_rect (last (tb_texts skew_b)))) +
                   fst (rb (text_rect (last (tb_texts skew_b)))))"
    unfolding bl bb br bd by (rule small_in_float_range, simp)+
  from zero_mean_flags [OF skew_classified a2 a3 a4 a5 refl refl a8 a9]
  obtain ta where ta: "skew_out ! 0 = TextBlock ta" "\<not> last_line_touch_end ta"
    "has_paragraph_indentation ta"
    unfolding al ab by auto
  from zero_mean_flags [OF skew_classified b2 b3 b4 b5 refl refl b8 b9]
  obtain tb where tb: "skew_out ! 1 = TextBlock tb" "\<not> last_line_touch_end tb"
    "has_paragraph_indentation tb"
    unfolding bl bb by auto
  from ta tb skew_classified a2 a3 a4 a5 a8 a9 al ab b2 b3 b4 b5 b8 b9 bl bb
  show ?thesis by blast
qed

text \<open>
  C3. The geometry analyzer returns the mean of the heights, the least x and the greatest
  x over the corner points, of the texts of the TextBlocks that are not ABANDON; with no
  such text it returns (0, 0, 0).
\<close>

theorem texts_range_is_mean_and_extent:
  "texts_range blocks =
     (if counted_texts blocks = [] then (0, 0, 0)
      else (sum_list (line_heights (counted_texts blocks)) / real (length (counted_texts blocks)),
            Min (set (corner_xs (counted_texts blocks))),
            Max (set (corner_xs (counted_texts blocks)))))"
  by (rule texts_range_counted)

text \<open>
  C4. In the yielded page, a TextBlock that is not ABANDON has its flags computed from
  the page-wide statistics when it has exactly one text, and from the statistics of the
  block alone when it has two or more.
\<close>

theorem baseline_page_or_local:
  assumes "classify blocks = Inr out" and "i < length blocks" and "blocks ! i = TextBlock tb"
    and "kind tb \<noteq> Kind_ABANDON"
  shows "(length (tb_texts tb) = 1 \<longrightarrow>
            out ! i = TextBlock (set_shape_flags (texts_range blocks) tb)) \<and>
         (2 \<le> length (tb_texts tb) \<longrightarrow>
            out ! i = TextBlock (set_shape_flags (texts_range [TextBlock tb]) tb))"
  using classify_nth [OF assms] by (simp add: baseline_def)

theorem baseline_page_or_local_witness:
  "classify sample_blocks = Inr sample_out \<and>
   0 < length sample_blocks \<and> sample_blocks ! 0 = TextBlock title_block \<and>
   kind title_block \<noteq> Kind_ABANDON \<and> length (tb_texts title_block) = 1 \<and>
   sample_out ! 0 = TextBlock (set_shape_flags (texts_range sample_blocks) title_block) \<and>
   3 < length sample_blocks \<and> sample_blocks ! 3 = TextBlock para_block \<and>
   kind para_block \<noteq> Kind_ABANDON \<and> 2 \<le> length (tb_texts para_block) \<and>
   sample_out ! 3 = TextBlock (set_shape_flags (texts_range [TextBlock para_block]) para_block)"
proof -
  have a2: "0 < length sample_blocks" and a3: "sample_blocks ! 0 = TextBlock title_block"
    and b2: "3 < length sample_blocks" and b3: "sample_blocks ! 3 = TextBlock para_block"
    by (simp_all add: sample_blocks_def)
  have a4: "kind title_block \<noteq> Kind_ABANDON" and a5: "length (tb_texts title_block) = 1"
    by (simp_all add: title_block_def new_text_block_def convert_to_text_def)
  have b4: "kind para_block \<noteq> Kind_ABANDON" and b5: "2 \<le> length (tb_texts para_block)"
    by (simp_all add: para_block_def new_text_block_def convert_to_text_def)
  from baseline_page_or_local [OF sample_classified a2 a3 a4]
    baseline_page_or_local [OF sample_classified b2 b3 b4]
    sample_classified a2 a3 a4 a5 b2 b3 b4 b5
  show ?thesis by blast
qed

lemma slant_a_range: "texts_range [TextBlock slant_a] = (2, 2, 48)"
  by (simp add: slant_a_def quad_text_def new_text_block_def range_defs)

lemma slant_b_range: "texts_range [TextBlock slant_b] = (4, 2, 48)"
  by (simp add: slant_b_def quad_text_def new_text_block_def range_defs)

lemma slanted_classified: "classify slanted_blocks = Inr slanted_out"
  unfolding classify_def
  by (simp add: slanted_blocks_def slanted_out_def classify_block_def baseline_def
      slant_a_range slant_b_range)
     (simp add: slant_a_def slant_b_def quad_text_def new_text_block_def set_shape_flags_def
      left_mid_x_def right_mid_x_def)

text \<open>
  C5. \<open>has_paragraph_indentation\<close> is true iff the midpoint of the first line's left edge
  (the mean of the x of its top-left and bottom-left corners) minus \<open>x1\<close> is strictly
  greater than the mean line height; \<open>last_line_touch_end\<close> is true iff \<open>x2\<close> minus the
  midpoint of the last line's right edge (the mean of the x of its top-right and
  bottom-right corners) is strictly less than it; equality gives false in both.
\<close>

theorem shape_comparisons_strict:
  assumes "classify blocks = Inr out" and "i < length blocks" and "blocks ! i = TextBlock tb"
    and "kind tb \<noteq> Kind_ABANDON" and "baseline (texts_range blocks) tb = (m, x1, x2)"
    and "first_rect = text_rect (hd (tb_texts tb))" and "last_rect = text_rect (last (tb_texts tb))"
  shows "\<exists>tb'. out ! i = TextBlock tb' \<and>
           (has_paragraph_indentation tb' \<longleftrightarrow>
              m < (fst (lt first_rect) + fst (lb first_rect)) / 2 - x1) \<and>
           (last_line_touch_end tb' \<longleftrightarrow>
              x2 - (fst (rt last_rect) + fst (rb last_rect)) / 2 < m) \<and>
           ((fst (lt first_rect) + fst (lb first_rect)) / 2 - x1 = m \<longrightarrow>
              \<not> has_paragraph_indentation tb') \<and>
           (x2 - (fst (rt last_rect) + fst (rb last_rect)) / 2 = m \<longrightarrow>
              \<not> last_line_touch_end tb')"
  using classify_nth [OF assms(1-4)] unfolding assms(5)
  by (simp add: set_shape_flags_def left_mid_x_def right_mid_x_def Let_def assms(6,7))

text \<open>
  On \<open>slanted_blocks\<close> the midpoints and the corners disagree. In \<open>slant_a\<close> both midpoint
  deltas equal the mean 2 and both flags are false, while the top corners alone are 4
  and 0 away from the boundaries. In \<open>slant_b\<close> the midpoint deltas 6 and 3 lie on the
  true side of the mean 4, while the bottom corners alone are 2 and 6 away.
\<close>

theorem shape_comparisons_strict_witness:
  "classify slanted_blocks = Inr slanted_out \<and>
   0 < length slanted_blocks \<and> slanted_blocks ! 0 = TextBlock slant_a \<and>
   kind slant_a \<noteq> Kind_ABANDON \<and>
   baseline (texts_range slanted_blocks) slant_a = (2, 2, 48) \<and>
   (fst (lt (text_rect (hd (tb_texts slant_a)))) +
    fst (lb (text_rect (hd (tb_texts slant_a))))) / 2 - 2 = 2 \<and>
   48 - (fst (rt (text_rect (last (tb_texts slant_a)))) +
         fst (rb (text_rect (last (tb_texts slant_a))))) / 2 = 2 \<and>
   fst (lt (text_rect (hd (tb_texts slant_a)))) - 2 = 4 \<and>
   48 - fst (rt (text_rect (last (tb_texts slant_a)))) = 0 \<and>
   (\<exists>tb'. slanted_out ! 0 = TextBlock tb' \<and>
      \<not> has_paragraph_indentation tb' \<and> \<not> last_line_touch_end tb') \<and>
   1 < length slanted_blocks \<and> slanted_blocks ! 1 = TextBlock slant_b \<and>
   kind slant_b \<noteq> Kind_ABANDON \<and>
   baseline (texts_range slanted_blocks) slant_b = (4, 2, 48) \<and>
   (fst (lt (text_rect (hd (tb_texts slant_b)))) +
    fst (lb (text_rect (hd (tb_texts slant_b))))) / 2 - 2 = 6 \<and>
   48 - (fst (rt (text_rect (last (tb_texts slant_b)))) +
         fst (rb (text_rect (last (tb_texts slant_b))))) / 2 = 3 \<and>
   fst (lb (text_rect (hd (tb_texts slant_b)))) - 2 = 2 \<and>
   48 - fst (rb (text_rect (last (tb_texts slant_b)))) = 6 \<and>
   (\<exists>tb'. slanted_out ! 1 = TextBlock tb' \<and>
      has_paragraph_indentation tb' \<and> last_line_touch_end tb')"
proof -
  have a2: "0 < length slanted_blocks" and a3: "slanted_blocks ! 0 = TextBlock slant_a"
    and b2: "1 < length slanted_blocks" and b3: "slanted_blocks ! 1 = TextBlock slant_b"
    by (simp_all add: slanted_blocks_def)
  have a4: "kind slant_a \<noteq> Kind_ABANDON" and b4: "kind slant_b \<noteq> Kind_ABANDON"
    by (simp_all add: slant_a_def slant_b_def new_text_block_def)
  have a5: "baseline (texts_range slanted_blocks) slant_a = (2, 2, 48)"
    by (simp add: baseline_def slant_a_range) (simp add: slant_a_def new_text_block_def)
  have b5: "baseline (texts_range slanted_blocks) slant_b = (4, 2, 48)"
    by (simp add: baseline_def slant_b_range) (simp add: slant_b_def new_text_block_def)
  have al: "(fst (lt (text_rect (hd (tb_texts slant_a)))) +
             fst (lb (text_rect (hd (tb_texts slant_a))))) / 2 - 2 = 2"
    and ar: "48 - (fst (rt (text_rect (last (tb_texts slant_a)))) +
             fst (rb (text_rect (last (tb_texts slant_a))))) / 2 = 2"
    and ac: "fst (lt (text_rect (hd (tb_texts slant_a)))) - 2 = 4"
    and ad: "48 - fst (rt (text_rect (last (tb_texts slant_a)))) = 0"
    by (simp_all add: slant_a_def new_text_block_def quad_text_def)
  have bl: "(fst (lt (text_rect (hd (tb_texts slant_b)))) +
             fst (lb (text_rect (hd (tb_texts slant_b))))) / 2 - 2 = 6"
    and br: "48 - (fst (rt (text_rect (last (tb_texts slant_b)))) +
             fst (rb (text_rect (last (tb_texts slant_b))))) / 2 = 3"
    and bc: "fst (lb (text_rect (hd (tb_texts slant_b)))) - 2 = 2"
    and bd: "48 - fst (rb (text_rect (last (tb_texts slant_b)))) = 6"
    by (simp_all add: slant_b_def new_text_block_def quad_text_def)
  from shape_comparisons_strict [OF slanted_classified a2 a3 a4 a5 refl refl]
  obtain ta where ta: "slanted_out ! 0 = TextBlock ta" "\<not> has_paragraph_indentation ta"
    "\<not> last_line_touch_end ta"
    unfolding al ar by auto
  from shape_comparisons_strict [OF slanted_classified b2 b3 b4 b5 refl refl]
  obtain tb where tb: "slanted_out ! 1 = TextBlock tb" "has_paragraph_indentation tb"
    "last_line_touch_end tb"
    unfolding bl br by auto
  from ta tb slanted_classified a2 a3 a4 a5 al ar ac ad b2 b3 b4 b5 bl br bc bd
  show ?thesis by blast
qed

section \<open>The theorems on the sample page\<close>

theorem classification_frame_witness:
  "convert_to_blocks (\<lambda>l. 7) sample_page = Inr sample_blocks \<and>
   classify sample_blocks = Inr sample_out \<and>
   list_all flags_clear sample_blocks \<and> list_all2 frame sample_blocks sample_out \<and>
   list_all abandon_flags_clear sample_out"
  using classification_frame [OF sample_converted sample_classified]
    sample_converted sample_classified by blast

theorem empty_text_region_fails_witness:
  "classify sample_blocks = Inr sample_out \<and> list_all has_first_text sample_blocks \<and>
   region PLAIN_TEXT [] \<in> set [region FIGURE [], region PLAIN_TEXT [], region TITLE [line 20 0 30 4]] \<and>
   (cls (region PLAIN_TEXT []) = TITLE \<or> cls (region PLAIN_TEXT []) = PLAIN_TEXT) \<and>
   fragments (region PLAIN_TEXT []) = [] \<and>
   extract_page (\<lambda>l. 7) [region FIGURE [], region PLAIN_TEXT [], region TITLE [line 20 0 30 4]]
     = Inl IndexError"
proof -
  let ?ls = "[region FIGURE [], region PLAIN_TEXT [], region TITLE [line 20 0 30 4]]"
  have m: "region PLAIN_TEXT [] \<in> set ?ls" by simp
  have c: "cls (region PLAIN_TEXT []) = TITLE \<or> cls (region PLAIN_TEXT []) = PLAIN_TEXT"
    by (simp add: region_def)
  have f: "fragments (region PLAIN_TEXT []) = []" by (simp add: region_def)
  from empty_text_region_fails
    [where blocks = sample_blocks and l = "region PLAIN_TEXT []" and layouts = ?ls
       and clip = "\<lambda>l. 7"] sample_classified m c f
  show ?thesis by blast
qed

theorem texts_range_is_mean_and_extent_witness:
  "counted_texts sample_blocks \<noteq> [] \<and>
   (sum_list (line_heights (counted_texts sample_blocks)) / real (length (counted_texts sample_blocks)),
    Min (set (corner_xs (counted_texts sample_blocks))),
    Max (set (corner_xs (counted_texts sample_blocks)))) = (8 / 3, 5, 90) \<and>
   counted_texts [AssetBlock figure_block, TextBlock footer_block] = [] \<and>
   texts_range [AssetBlock figure_block, TextBlock footer_block] = (0, 0, 0)"
proof -
  have ne: "counted_texts sample_blocks \<noteq> []"
    by (simp add: counted_texts_def sample_defs)
  have e: "counted_texts [AssetBlock figure_block, TextBlock footer_block] = []"
    by (simp add: counted_texts_def footer_block_def new_text_block_def)
  from texts_range_is_mean_and_extent [of sample_blocks]
    texts_range_is_mean_and_extent [of "[AssetBlock figure_block, TextBlock footer_block]"]
    ne e sample_page_range
  show ?thesis by simp
qed

end
